theory Spec2Isabelle
  imports Complex_Main "HOL-Library.Word"
begin

unbundle bit_operations_syntax

section \<open>ESPNowMeshClock: data model\<close>

text \<open>
  The library is modelled from \<^verbatim>\<open>src/ESPNowMeshClock.cpp\<close>. Where the later revision of
  the same file (the one with debug logging and \<^verbatim>\<open>TRANSMISSION_DELAY_US\<close>) differs, its
  functions are modelled next to the first ones under the suffix \<open>_txd\<close>.

  Machine integers are words of the declared width, and \<^verbatim>\<open>float\<close> is binary32 with
  round-to-nearest-even. The two readings of the environment,
  \<^verbatim>\<open>_clock()\<close> (64-bit microseconds) and \<^verbatim>\<open>millis()\<close> (32-bit milliseconds), are
  arguments of the functions that call them. Serial logging is left out: it changes no
  field and no frame.
\<close>

type_synonym u8 = "8 word"
type_synonym u16 = "16 word"
type_synonym u32 = "32 word"
type_synonym u64 = "64 word"

text \<open>\<^verbatim>\<open>enum class SyncState { ALONE, SYNCED, LOST }\<close>\<close>

datatype SyncState = ALONE | SYNCED | LOST

section \<open>Single-precision arithmetic\<close>

text \<open>
  \<^verbatim>\<open>float _alpha\<close> is an IEEE-754 binary32 number, and the code uses it once, in
  \<^verbatim>\<open>(uint64_t)(delta * _alpha)\<close> with \<^verbatim>\<open>int64_t delta\<close>: C++ converts \<open>delta\<close> to
  \<^verbatim>\<open>float\<close>, multiplies in \<^verbatim>\<open>float\<close>, and the cast truncates towards zero. A finite
  binary32 number is a sign, a significand below \<open>2 ^ 24\<close> and a power of two; the same
  number may be written with several pairs (0.25 is \<open>1 * 2 ^ - 2\<close>). Infinities and NaN are
  not represented.
\<close>

datatype f32 = F32 (negative: bool) (mant: nat) (expo: int)

definition f32_value :: "f32 \<Rightarrow> real" where
  "f32_value a = (if negative a then - 1 else 1) * real (mant a) * 2 powi expo a"

definition is_binary32 :: "f32 \<Rightarrow> bool" where
  "is_binary32 a = (mant a < 2 ^ 24 \<and> - 149 \<le> expo a \<and> expo a \<le> 104)"

text \<open>
  Rounding a magnitude \<open>M * 2 ^ E\<close> to 24 significant bits, to nearest with ties to even,
  as conversion and multiplication do. \<open>drop_bits M\<close> is the number of low bits of \<open>M\<close> that
  do not fit; \<open>round_even M k\<close> is \<open>M / 2 ^ k\<close> rounded to an integer. The exponent is not
  bounded here: a result of \<open>2 ^ 128\<close> or more is an infinity in binary32, and one below
  \<open>2 ^ - 126\<close> is rounded more coarsely there; the first needs a factor above \<open>2 ^ 64\<close>, and
  the second stays below 1 under either rounding, so its truncation is 0.
\<close>

function drop_bits :: "nat \<Rightarrow> nat" where
  "drop_bits M = (if M < 2 ^ 24 then 0 else Suc (drop_bits (M div 2)))"
  by pat_completeness auto
termination
  by (relation "measure id") auto

declare drop_bits.simps [simp del]

definition round_even :: "nat \<Rightarrow> nat \<Rightarrow> nat" where
  "round_even M k =
     (let q = M div 2 ^ k; r = M mod 2 ^ k
      in if 2 ^ k < 2 * r \<or> (2 * r = 2 ^ k \<and> odd q) then q + 1 else q)"

definition f32_round :: "bool \<Rightarrow> nat \<Rightarrow> int \<Rightarrow> f32" where
  "f32_round sg M E = (let k = drop_bits M in F32 sg (round_even M k) (E + int k))"

text \<open>\<^verbatim>\<open>(float)delta\<close> for a 64-bit word read as signed.\<close>

definition i64_to_f32 :: "64 word \<Rightarrow> f32" where
  "i64_to_f32 d = f32_round (sint d < 0) (nat \<bar>sint d\<bar>) 0"

text \<open>The product of two binary32 numbers: the exact product, rounded.\<close>

definition f32_mul :: "f32 \<Rightarrow> f32 \<Rightarrow> f32" where
  "f32_mul a b = f32_round (negative a \<noteq> negative b) (mant a * mant b) (expo a + expo b)"

text \<open>
  \<^verbatim>\<open>(uint64_t)x\<close>: the magnitude is truncated to an integer. The C++ is undefined for a
  value of \<open>- 1\<close> or less, or of \<open>2 ^ 64\<close> or more; the model wraps there.
\<close>

definition f32_to_u64 :: "f32 \<Rightarrow> 64 word" where
  "f32_to_u64 a =
     (let t = (if 0 \<le> expo a then int (mant a) * 2 ^ nat (expo a)
               else int (mant a) div 2 ^ nat (- expo a))
      in word_of_int (if negative a then - t else t))"

text \<open>\<^verbatim>\<open>(uint64_t)(delta * _alpha)\<close>\<close>

definition slew_step :: "f32 \<Rightarrow> 64 word \<Rightarrow> 64 word" where
  "slew_step a delta = f32_to_u64 (f32_mul (i64_to_f32 delta) a)"

section \<open>The object\<close>

text \<open>
  The private fields of \<^verbatim>\<open>class ESPNowMeshClock\<close>. A function pointer is its address,
  \<open>0\<close> for \<^verbatim>\<open>nullptr\<close>.
\<close>

record mesh_clock =
  interval :: u16
  alpha :: f32
  largeStep :: u32
  syncTimeout :: u32
  randomVariation :: u8
  offset :: u64
  synced :: bool
  lastSync :: u32
  lastBroadcast :: u32
  nextBroadcastDelay :: u32
  userCallback :: u32

text \<open>The constructor: every runtime field starts at zero.\<close>

definition new_clock :: "u16 \<Rightarrow> f32 \<Rightarrow> u32 \<Rightarrow> u32 \<Rightarrow> u8 \<Rightarrow> mesh_clock" where
  "new_clock interval_ms slew_alpha large_step_us sync_timeout_ms random_variation_percent =
     \<lparr> interval = interval_ms, alpha = slew_alpha, largeStep = large_step_us,
       syncTimeout = sync_timeout_ms, randomVariation = random_variation_percent,
       offset = 0, synced = False, lastSync = 0, lastBroadcast = 0,
       nextBroadcastDelay = 0, userCallback = 0 \<rparr>"

text \<open>
  The object built with the constructor's default arguments (1000 ms, 0.25, 10000 us,
  5000 ms, 10 percent), used for the concrete examples.
\<close>

definition default_clock :: mesh_clock where
  "default_clock = new_clock 1000 (F32 False 1 (- 2)) 10000 5000 10"

section \<open>Mesh time and sync state\<close>

text \<open>\<^verbatim>\<open>uint64_t meshMicros() { return _clock() + _offset; }\<close>\<close>

definition meshMicros :: "mesh_clock \<Rightarrow> u64 \<Rightarrow> u64" where
  "meshMicros s clk = clk + offset s"

text \<open>\<^verbatim>\<open>getSyncState\<close>: the subtraction and the comparison are unsigned 32-bit.\<close>

definition getSyncState :: "mesh_clock \<Rightarrow> u32 \<Rightarrow> SyncState" where
  "getSyncState s nowMs =
     (if \<not> synced s then ALONE
      else if nowMs - lastSync s > syncTimeout s then LOST
      else SYNCED)"

section \<open>Clock adjustment\<close>

text \<open>
  \<^verbatim>\<open>abs(delta)\<close> on an \<^verbatim>\<open>int64_t\<close>: Arduino's macro \<^verbatim>\<open>((x)>0?(x):-(x))\<close>, with which
  \<^verbatim>\<open>std::abs\<close> agrees. The word is read as two's complement by \<open>sint\<close>; at the least 64-bit
  value the negation wraps (the C++ is undefined there).
\<close>

definition abs_i64 :: "u64 \<Rightarrow> u64" where
  "abs_i64 d = (if 0 < sint d then d else - d)"

text \<open>
  \<^verbatim>\<open>_adjust\<close> of \<^verbatim>\<open>src/ESPNowMeshClock.cpp\<close>. \<open>delta\<close> is the 64-bit difference read
  as signed; \<^verbatim>\<open>abs(delta) > _largeStep\<close> compares it with the threshold widened to 64 bits.
\<close>

definition adjust :: "mesh_clock \<Rightarrow> u64 \<Rightarrow> u32 \<Rightarrow> u64 \<Rightarrow> mesh_clock" where
  "adjust s clk nowMs remoteMicros =
     (let localMicros = clk + offset s;
          delta = remoteMicros - localMicros;
          s1 = s\<lparr>lastSync := nowMs\<rparr>
      in if \<not> synced s1 \<or> uint (largeStep s1) < sint (abs_i64 delta)
         then s1\<lparr>offset := offset s1 + delta, synced := True\<rparr>
         else if 0 < sint delta
         then (let step = slew_step (alpha s1) delta
               in s1\<lparr>offset := offset s1 + step\<rparr>)
         else s1)"

text \<open>
  \<^verbatim>\<open>_adjust\<close> of the later revision: the direct set is applied only to a positive
  \<open>delta\<close>; a non-positive one is ignored but still marks the node as synced.
\<close>

definition adjust_txd :: "mesh_clock \<Rightarrow> u64 \<Rightarrow> u32 \<Rightarrow> u64 \<Rightarrow> mesh_clock" where
  "adjust_txd s clk nowMs remoteMicros =
     (let localMicros = clk + offset s;
          delta = remoteMicros - localMicros;
          s1 = s\<lparr>lastSync := nowMs\<rparr>
      in if \<not> synced s1 \<or> uint (largeStep s1) < sint (abs_i64 delta)
         then (if 0 < sint delta
               then s1\<lparr>offset := offset s1 + delta, synced := True\<rparr>
               else s1\<lparr>synced := True\<rparr>)
         else if 0 < sint delta
         then (let step = slew_step (alpha s1) delta
               in s1\<lparr>offset := offset s1 + step\<rparr>)
         else s1)"

section \<open>Wire frame\<close>

text \<open>
  \<^verbatim>\<open>struct MeshClockPacket { uint8_t magic[3]; uint8_t timestamp[7]; }\<close>, ten bytes, with
  the magic \<^verbatim>\<open>MESHCLOCK_MAGIC_0..2\<close>. A received buffer is a byte list; the cast to the
  struct reads \<open>magic[i]\<close> at index \<open>i\<close> and \<open>timestamp[i]\<close> at index \<open>3 + i\<close>.
\<close>

definition MESHCLOCK_MAGIC_0 :: u8 where "MESHCLOCK_MAGIC_0 = 0x4D"
definition MESHCLOCK_MAGIC_1 :: u8 where "MESHCLOCK_MAGIC_1 = 0x43"
definition MESHCLOCK_MAGIC_2 :: u8 where "MESHCLOCK_MAGIC_2 = 0x4B"

definition sizeof_MeshClockPacket :: int where
  "sizeof_MeshClockPacket = 10"

text \<open>
  The loop of \<^verbatim>\<open>handleReceive\<close>:
  \<^verbatim>\<open>for (i = 0; i < 7; i++) remoteMicros |= ((uint64_t)packet->timestamp[i]) << (i * 8);\<close>
\<close>

definition extract_timestamp :: "u8 list \<Rightarrow> u64" where
  "extract_timestamp data =
     fold (\<lambda>i remoteMicros. remoteMicros OR push_bit (i * 8) (ucast (data ! (3 + i)) :: u64))
       [0..<7] 0"

text \<open>
  The packing of \<^verbatim>\<open>_broadcast\<close>: the magic, then
  \<^verbatim>\<open>for (i = 0; i < 7; i++) packet.timestamp[i] = (stamp >> (i * 8)) & 0xFF;\<close>
\<close>

definition pack_packet :: "u64 \<Rightarrow> u8 list" where
  "pack_packet stamp =
     [MESHCLOCK_MAGIC_0, MESHCLOCK_MAGIC_1, MESHCLOCK_MAGIC_2] @
     map (\<lambda>i. ucast (drop_bit (i * 8) stamp AND 0xFF) :: u8) [0..<7]"

section \<open>Receive path\<close>

text \<open>
  \<^verbatim>\<open>handleReceive(mac, data, len)\<close>: the result is the returned flag and the object
  after the call. The buffer is read only when \<open>len\<close> is the packet size.
\<close>

definition handleReceive ::
  "mesh_clock \<Rightarrow> u64 \<Rightarrow> u32 \<Rightarrow> u8 list \<Rightarrow> u8 list \<Rightarrow> int \<Rightarrow> bool \<times> mesh_clock" where
  "handleReceive s clk nowMs mac data len =
     (if len = sizeof_MeshClockPacket then
        (if data ! 0 = MESHCLOCK_MAGIC_0 \<and> data ! 1 = MESHCLOCK_MAGIC_1 \<and>
            data ! 2 = MESHCLOCK_MAGIC_2
         then (True, adjust s clk nowMs (extract_timestamp data))
         else (False, s))
      else (False, s))"

text \<open>The later revision: early returns on a wrong size and on a wrong magic.\<close>

definition handleReceive_txd ::
  "mesh_clock \<Rightarrow> u64 \<Rightarrow> u32 \<Rightarrow> u8 list \<Rightarrow> u8 list \<Rightarrow> int \<Rightarrow> bool \<times> mesh_clock" where
  "handleReceive_txd s clk nowMs mac data len =
     (if len \<noteq> sizeof_MeshClockPacket then (False, s)
      else if data ! 0 \<noteq> MESHCLOCK_MAGIC_0 \<or> data ! 1 \<noteq> MESHCLOCK_MAGIC_1 \<or>
              data ! 2 \<noteq> MESHCLOCK_MAGIC_2
      then (False, s)
      else (True, adjust_txd s clk nowMs (extract_timestamp data)))"

text \<open>\<^verbatim>\<open>setUserCallback\<close>\<close>

definition setUserCallback :: "mesh_clock \<Rightarrow> u32 \<Rightarrow> mesh_clock" where
  "setUserCallback s callback = s\<lparr>userCallback := callback\<rparr>"

text \<open>
  \<^verbatim>\<open>_onReceive\<close>, the static radio callback. \<^verbatim>\<open>_instance\<close> is \<open>None\<close> for a null pointer.
  The second component lists the calls made to the user callback, each with the callback's
  address and the three arguments it receives.
\<close>

type_synonym callback_call = "u32 \<times> u8 list \<times> u8 list \<times> int"

definition onReceive ::
  "mesh_clock option \<Rightarrow> u64 \<Rightarrow> u32 \<Rightarrow> u8 list \<Rightarrow> u8 list \<Rightarrow> int
     \<Rightarrow> mesh_clock option \<times> callback_call list" where
  "onReceive instance clk nowMs mac data len =
     (case instance of
        None \<Rightarrow> (None, [])
      | Some s \<Rightarrow>
          (let (handled, s') = handleReceive s clk nowMs mac data len
           in if \<not> handled \<and> userCallback s' \<noteq> 0
              then (Some s', [(userCallback s', mac, data, len)])
              else (Some s', [])))"

section \<open>Broadcast and scheduler\<close>

text \<open>
  \<^verbatim>\<open>_broadcast\<close>: the frame handed to \<^verbatim>\<open>esp_now_send\<close>. The send result only selects a
  log line.
\<close>

definition broadcast :: "mesh_clock \<Rightarrow> u64 \<Rightarrow> u8 list" where
  "broadcast s clk = (let stamp = meshMicros s clk in pack_packet stamp)"

text \<open>
  The later revision adds the macro \<^verbatim>\<open>TRANSMISSION_DELAY_US\<close> to the stamp. The header
  defines it as 1000 unless the build defines it otherwise, so it is a parameter here.
\<close>

definition TRANSMISSION_DELAY_US_default :: u64 where
  "TRANSMISSION_DELAY_US_default = 1000"

definition broadcast_txd :: "u64 \<Rightarrow> mesh_clock \<Rightarrow> u64 \<Rightarrow> u8 list" where
  "broadcast_txd TRANSMISSION_DELAY_US s clk =
     (let stamp = meshMicros s clk + TRANSMISSION_DELAY_US in pack_packet stamp)"




section \<open>Sync state\<close>

text \<open>
  C4. \<open>getSyncState\<close> is \<open>ALONE\<close> exactly when \<open>synced\<close> is false, \<open>LOST\<close> exactly when
  \<open>synced\<close> is true and the 32-bit difference \<open>nowMs - lastSync\<close> exceeds \<open>syncTimeout\<close>,
  and \<open>SYNCED\<close> exactly when \<open>synced\<close> is true and that difference is at most
  \<open>syncTimeout\<close>. It is a function of the object and the millisecond reading alone and
  returns no new object: nothing is stored.
\<close>

theorem getSyncState_derivation:
  "(getSyncState s nowMs = ALONE) = (\<not> synced s) \<and>
   (getSyncState s nowMs = LOST) = (synced s \<and> nowMs - lastSync s > syncTimeout s) \<and>
   (getSyncState s nowMs = SYNCED) = (synced s \<and> nowMs - lastSync s \<le> syncTimeout s)"
  by (auto simp: getSyncState_def)

section \<open>Frame discrimination\<close>

lemma magic_take3:
  assumes "3 \<le> length data"
  shows "(data ! 0 = MESHCLOCK_MAGIC_0 \<and> data ! 1 = MESHCLOCK_MAGIC_1 \<and>
          data ! 2 = MESHCLOCK_MAGIC_2)
         = (take 3 data = [0x4D, 0x43, 0x4B])"
proof -
  from assms obtain a b c r where "data = a # b # c # r"
    by (cases data; cases "tl data"; cases "tl (tl data)") auto
  then show ?thesis
    by (auto simp: MESHCLOCK_MAGIC_0_def MESHCLOCK_MAGIC_1_def MESHCLOCK_MAGIC_2_def)
qed

lemma handleReceive_rejects:
  assumes "len \<le> int (length data)"
    and "\<not> (len = 10 \<and> take 3 data = [0x4D, 0x43, 0x4B])"
  shows "handleReceive s clk nowMs mac data len = (False, s)"
proof (cases "len = 10")
  case True
  with assms(1) have "3 \<le> length data" by simp
  from magic_take3 [OF this] True assms(2) show ?thesis
    by (simp add: handleReceive_def sizeof_MeshClockPacket_def)
next
  case False
  then show ?thesis by (simp add: handleReceive_def sizeof_MeshClockPacket_def)
qed

lemma handleReceive_accepts:
  assumes "len \<le> int (length data)"
    and "len = 10" and "take 3 data = [0x4D, 0x43, 0x4B]"
  shows "handleReceive s clk nowMs mac data len
           = (True, adjust s clk nowMs (extract_timestamp data))"
proof -
  from assms(1,2) have "3 \<le> length data" by simp
  from magic_take3 [OF this] assms(2,3) show ?thesis
    by (simp add: handleReceive_def sizeof_MeshClockPacket_def)
qed

text \<open>
  C3. For a buffer that holds at least \<open>len\<close> bytes, \<open>handleReceive\<close> returns true exactly
  when \<open>len\<close> is 10 and the first three bytes are 0x4D 0x43 0x4B. So every other length,
  and every 10-byte buffer with other first bytes, gives false. The source address plays
  no part.
\<close>

theorem handleReceive_true_iff:
  assumes "len \<le> int (length data)"
  shows "fst (handleReceive s clk nowMs mac data len)
           = (len = 10 \<and> take 3 data = [0x4D, 0x43, 0x4B])"
proof (cases "len = 10 \<and> take 3 data = [0x4D, 0x43, 0x4B]")
  case True
  with handleReceive_accepts [OF assms, of s clk nowMs mac] show ?thesis by simp
next
  case False
  with handleReceive_rejects [OF assms, of s clk nowMs mac] show ?thesis by simp
qed

text \<open>
  A valid frame carrying 2100000 is accepted; a 10-byte frame with the magic \<open>MCL\<close> and a
  4-byte frame are not.
\<close>

theorem handleReceive_true_iff_witness:
  "fst (handleReceive default_clock 100000 3 [1, 2, 3, 4, 5, 6]
          [0x4D, 0x43, 0x4B, 0x20, 0x0B, 0x20, 0, 0, 0, 0] 10) \<and>
   \<not> fst (handleReceive default_clock 100000 3 [1, 2, 3, 4, 5, 6]
          [0x4D, 0x43, 0x4C, 0x20, 0x0B, 0x20, 0, 0, 0, 0] 10) \<and>
   \<not> fst (handleReceive default_clock 100000 3 [1, 2, 3, 4, 5, 6] [0x4D, 0x43, 0x4B, 0x20] 4)"
proof -
  have a: "10 \<le> int (length [0x4D, 0x43, 0x4B, 0x20, 0x0B, 0x20, 0, 0, 0, 0 :: u8])"
    and b: "10 \<le> int (length [0x4D, 0x43, 0x4C, 0x20, 0x0B, 0x20, 0, 0, 0, 0 :: u8])"
    and c: "4 \<le> int (length [0x4D, 0x43, 0x4B, 0x20 :: u8])"
    by simp_all
  show ?thesis
    using handleReceive_true_iff [OF a, of default_clock 100000 3 "[1, 2, 3, 4, 5, 6]"]
      handleReceive_true_iff [OF b, of default_clock 100000 3 "[1, 2, 3, 4, 5, 6]"]
      handleReceive_true_iff [OF c, of default_clock 100000 3 "[1, 2, 3, 4, 5, 6]"]
    by simp
qed

text \<open>
  C9. A buffer of at least \<open>len\<close> bytes that is not a clock frame (wrong length or wrong
  magic) leaves the whole object unchanged, so \<open>offset\<close>, \<open>synced\<close> and \<open>lastSync\<close> too, and
  \<open>handleReceive\<close> returns false. Through the radio callback \<open>onReceive\<close> the same source
  address, bytes and length go to the user callback, once, when one is registered; with
  none registered nothing is called.
\<close>

theorem non_clock_frame:
  assumes "len \<le> int (length data)"
    and "\<not> (len = 10 \<and> take 3 data = [0x4D, 0x43, 0x4B])"
  shows "handleReceive s clk nowMs mac data len = (False, s) \<and>
         onReceive (Some s) clk nowMs mac data len =
           (Some s, if userCallback s \<noteq> 0 then [(userCallback s, mac, data, len)] else [])"
  using handleReceive_rejects [OF assms, of s clk nowMs mac]
  by (simp add: onReceive_def)

text \<open>
  A 32-byte frame, with a callback registered at address 0x400D1234 and with none.
\<close>

theorem non_clock_frame_witness:
  "onReceive (Some (setUserCallback default_clock 0x400D1234)) 100000 3 [1, 2, 3, 4, 5, 6]
      (replicate 32 0x55) 32
     = (Some (setUserCallback default_clock 0x400D1234),
        [(0x400D1234, [1, 2, 3, 4, 5, 6], replicate 32 0x55, 32)]) \<and>
   onReceive (Some default_clock) 100000 3 [1, 2, 3, 4, 5, 6] (replicate 32 0x55) 32
     = (Some default_clock, []) \<and>
   handleReceive default_clock 100000 3 [1, 2, 3, 4, 5, 6] (replicate 32 0x55) 32
     = (False, default_clock)"
proof -
  have a: "32 \<le> int (length (replicate 32 (0x55 :: u8)))" by simp
  have b: "\<not> ((32 :: int) = 10 \<and> take 3 (replicate 32 (0x55 :: u8)) = [0x4D, 0x43, 0x4B])"
    by simp
  show ?thesis
    using non_clock_frame [OF a b, of "setUserCallback default_clock 0x400D1234" 100000 3
        "[1, 2, 3, 4, 5, 6]"]
      non_clock_frame [OF a b, of default_clock 100000 3 "[1, 2, 3, 4, 5, 6]"]
    by (simp add: setUserCallback_def default_clock_def new_clock_def)
qed

section \<open>Codec\<close>

lemma upt7: "[0..<7] = [0, 1, 2, 3, 4, 5, 6 :: nat]"
  by (simp add: upt_rec)

lemma byte_mask: "(0xFF :: u64) = mask 8"
  by (simp add: mask_eq_exp_minus_1)

lemma byte_of: "(ucast (ucast (w AND 0xFF :: u64) :: u8) :: u64) = take_bit 8 w"
  unfolding byte_mask
  by (rule bit_word_eqI) (auto simp: bit_simps)

text \<open>Eight more bits of a word are its next byte, shifted into place.\<close>

lemma take_bit_step:
  "take_bit (k + 8) (w :: u64) = take_bit k w OR push_bit k (take_bit 8 (drop_bit k w))"
proof (rule bit_word_eqI)
  fix n assume n: "n < LENGTH(64)"
  show "bit (take_bit (k + 8) w) n
          = bit (take_bit k w OR push_bit k (take_bit 8 (drop_bit k w))) n"
  proof (cases "n < k")
    case True
    then show ?thesis by (simp add: bit_simps)
  next
    case False
    then have "k + (n - k) = n" by simp
    with False n show ?thesis by (auto simp: bit_simps)
  qed
qed

lemma take_bit_56:
  "take_bit 56 (w :: u64) =
     take_bit 8 w OR push_bit 8 (take_bit 8 (drop_bit 8 w))
       OR push_bit 16 (take_bit 8 (drop_bit 16 w))
       OR push_bit 24 (take_bit 8 (drop_bit 24 w))
       OR push_bit 32 (take_bit 8 (drop_bit 32 w))
       OR push_bit 40 (take_bit 8 (drop_bit 40 w))
       OR push_bit 48 (take_bit 8 (drop_bit 48 w))"
  using take_bit_step [of 8 w] take_bit_step [of 16 w] take_bit_step [of 24 w]
    take_bit_step [of 32 w] take_bit_step [of 40 w] take_bit_step [of 48 w]
  by (simp add: ac_simps)

text \<open>What a packed frame decodes to, for any stamp: its low 56 bits.\<close>

lemma extract_pack: "extract_timestamp (pack_packet stamp) = take_bit 56 stamp"
  unfolding extract_timestamp_def pack_packet_def upt7
  by (simp add: byte_of take_bit_56 ac_simps)

lemma take_bit_byte:
  "k \<le> 48 \<Longrightarrow> take_bit 56 (push_bit k (ucast (b :: u8)) :: u64) = push_bit k (ucast b)"
  by (rule bit_word_eqI) (auto simp: bit_simps dest: bit_imp_le_length)

lemma extract_take_bit: "take_bit 56 (extract_timestamp data) = extract_timestamp data"
  unfolding extract_timestamp_def upt7
  using take_bit_byte [of 0 "data ! 3"] by (simp add: take_bit_byte)

text \<open>Every decoded timestamp is below \<open>2 ^ 56\<close>, whatever the seven bytes.\<close>

lemma extract_bound: "uint (extract_timestamp data) < 2 ^ 56"
proof -
  have "uint (take_bit 56 (extract_timestamp data)) < 2 ^ 56"
    using take_bit_int_less_exp [of 56 "uint (extract_timestamp data)"]
    by (simp only: unsigned_take_bit_eq)
  then show ?thesis by (simp only: extract_take_bit)
qed

lemma pack_length: "length (pack_packet stamp) = 10"
  by (simp add: pack_packet_def)

lemma pack_magic: "take 3 (pack_packet stamp) = [0x4D, 0x43, 0x4B]"
  by (simp add: pack_packet_def MESHCLOCK_MAGIC_0_def MESHCLOCK_MAGIC_1_def
      MESHCLOCK_MAGIC_2_def)

text \<open>
  C5. For a stamp below \<open>2 ^ 56\<close> the packed frame has ten bytes, starts with \<open>MCK\<close>, and
  the receive loop reads exactly the stamp back from it, with bits 56 to 63 zero;
  \<open>handleReceive\<close> accepts the frame and adjusts with that stamp.
\<close>

theorem codec_round_trip:
  assumes "stamp < 2 ^ 56"
  shows "length (pack_packet stamp) = 10 \<and>
         take 3 (pack_packet stamp) = [0x4D, 0x43, 0x4B] \<and>
         extract_timestamp (pack_packet stamp) = stamp \<and>
         drop_bit 56 (extract_timestamp (pack_packet stamp)) = 0 \<and>
         handleReceive s clk nowMs mac (pack_packet stamp) 10
           = (True, adjust s clk nowMs stamp)"
proof -
  from assms have t: "take_bit 56 stamp = stamp"
    by (simp add: take_bit_eq_mask less_mask_eq)
  have z: "drop_bit 56 (take_bit 56 stamp) = 0"
    by (rule bit_word_eqI) (simp add: bit_simps)
  have "10 \<le> int (length (pack_packet stamp))"
    by (simp add: pack_length)
  from handleReceive_accepts [OF this refl pack_magic, of s clk nowMs mac]
  have "handleReceive s clk nowMs mac (pack_packet stamp) 10
          = (True, adjust s clk nowMs (take_bit 56 stamp))"
    by (simp only: extract_pack)
  with t z show ?thesis
    by (simp add: pack_length pack_magic extract_pack)
qed

theorem codec_round_trip_witness:
  "extract_timestamp (pack_packet 2100000) = 2100000 \<and>
   drop_bit 56 (extract_timestamp (pack_packet 2100000)) = 0 \<and>
   handleReceive default_clock 100000 3 [1, 2, 3, 4, 5, 6] (pack_packet 2100000) 10
     = (True, adjust default_clock 100000 3 2100000)"
proof -
  have h: "(2100000 :: u64) < 2 ^ 56" by simp
  show ?thesis
    using codec_round_trip [OF h, of default_clock 100000 3 "[1, 2, 3, 4, 5, 6]"] by simp
qed

section \<open>Clock adjustment on reception\<close>

text \<open>
  The signed reading of a 64-bit difference is the difference of the unsigned readings
  whenever that fits in 64 signed bits.
\<close>

lemma sint_diff:
  fixes r l :: u64
  assumes "- (2 ^ 63) \<le> uint r - uint l" and "uint r - uint l < 2 ^ 63"
  shows "sint (r - l) = uint r - uint l"
proof -
  have "sint (r - l) = signed_take_bit 63 (take_bit 64 (uint r - uint l))"
    by (simp add: sint_uint uint_word_arith_bintrs)
  also have "\<dots> = signed_take_bit 63 (uint r - uint l)"
    by (simp add: signed_take_bit_take_bit)
  also have "\<dots> = uint r - uint l"
    using assms by (rule signed_take_bit_int_eq_self)
  finally show ?thesis .
qed

lemma abs_i64_pos: "0 < sint d \<Longrightarrow> abs_i64 d = d"
  by (simp add: abs_i64_def)

lemma handleReceive_valid:
  assumes "fst (handleReceive s clk nowMs mac data len)"
  shows "handleReceive s clk nowMs mac data len
           = (True, adjust s clk nowMs (extract_timestamp data))"
    and "handleReceive_txd s clk nowMs mac data len
           = (True, adjust_txd s clk nowMs (extract_timestamp data))"
  using assms by (auto simp: handleReceive_def handleReceive_txd_def split: if_splits)

text \<open>
  C2. Take a reception of a valid clock frame whose decoded timestamp \<open>remote\<close> is above
  the local mesh time \<open>local = clk + offset\<close>, on a node that is not yet synced or whose
  distance \<open>|remote - local|\<close> exceeds \<open>largeStep\<close>. Then \<open>offset\<close> grows by exactly
  \<open>remote - local\<close>, and \<open>meshMicros\<close> read at the same counter value is \<open>remote\<close>. Both
  revisions of \<open>_adjust\<close> agree on this.
\<close>

theorem large_step_jump:
  assumes valid: "fst (handleReceive s clk nowMs mac data len)"
    and ahead: "uint (meshMicros s clk) < uint (extract_timestamp data)"
    and large: "\<not> synced s \<or>
                uint (largeStep s) < \<bar>uint (extract_timestamp data) - uint (meshMicros s clk)\<bar>"
  shows "offset (snd (handleReceive s clk nowMs mac data len))
           = offset s + (extract_timestamp data - meshMicros s clk) \<and>
         meshMicros (snd (handleReceive s clk nowMs mac data len)) clk
           = extract_timestamp data \<and>
         offset (snd (handleReceive_txd s clk nowMs mac data len))
           = offset s + (extract_timestamp data - meshMicros s clk) \<and>
         meshMicros (snd (handleReceive_txd s clk nowMs mac data len)) clk
           = extract_timestamp data"
proof -
  let ?r = "extract_timestamp data" and ?l = "clk + offset s"
  have l: "meshMicros s clk = ?l" by (simp add: meshMicros_def)
  have "(2::int) ^ 56 \<le> 2 ^ 63" by simp
  with extract_bound [of data] uint_nonnegative [of ?l]
  have "uint ?r - uint ?l < 2 ^ 63" by linarith
  moreover have "- (2 ^ 63) \<le> uint ?r - uint ?l"
    using ahead by (simp add: l)
  ultimately have d: "sint (?r - ?l) = uint ?r - uint ?l"
    by (intro sint_diff)
  then have pos: "0 < sint (?r - ?l)" using ahead by (simp add: l)
  have a: "sint (abs_i64 (?r - ?l)) = \<bar>uint ?r - uint ?l\<bar>"
    using pos d by (simp add: abs_i64_pos)
  have A: "adjust s clk nowMs ?r
             = s\<lparr>lastSync := nowMs, offset := offset s + (?r - ?l), synced := True\<rparr>"
    using large a by (auto simp: adjust_def Let_def l)
  have B: "adjust_txd s clk nowMs ?r
             = s\<lparr>lastSync := nowMs, offset := offset s + (?r - ?l), synced := True\<rparr>"
    using large a pos by (auto simp: adjust_txd_def Let_def l)
  show ?thesis
    by (simp add: handleReceive_valid [OF valid] A B meshMicros_def)
qed

lemma extract_2100000:
  "extract_timestamp [0x4D, 0x43, 0x4B, 0x20, 0x0B, 0x20, 0, 0, 0, 0] = 2100000"
  by (simp add: extract_timestamp_def upt7)

lemma handleReceive_2100000:
  "fst (handleReceive s clk nowMs mac [0x4D, 0x43, 0x4B, 0x20, 0x0B, 0x20, 0, 0, 0, 0] 10)"
  by (simp add: handleReceive_def sizeof_MeshClockPacket_def MESHCLOCK_MAGIC_0_def
      MESHCLOCK_MAGIC_1_def MESHCLOCK_MAGIC_2_def)

text \<open>
  Cold start with a remote ahead by two seconds: the counter reads 100000 when a frame
  carrying 2100000 arrives; afterwards mesh time reads 2100000. The same on a synced node,
  where the jump is taken because 2000000 exceeds the threshold 10000.
\<close>

theorem large_step_jump_witness:
  "offset (snd (handleReceive default_clock 100000 3 [1, 2, 3, 4, 5, 6]
      [0x4D, 0x43, 0x4B, 0x20, 0x0B, 0x20, 0, 0, 0, 0] 10)) = 2000000 \<and>
   meshMicros (snd (handleReceive default_clock 100000 3 [1, 2, 3, 4, 5, 6]
      [0x4D, 0x43, 0x4B, 0x20, 0x0B, 0x20, 0, 0, 0, 0] 10)) 100000 = 2100000 \<and>
   meshMicros (snd (handleReceive (default_clock\<lparr>synced := True\<rparr>) 100000 3 [1, 2, 3, 4, 5, 6]
      [0x4D, 0x43, 0x4B, 0x20, 0x0B, 0x20, 0, 0, 0, 0] 10)) 100000 = 2100000"
proof -
  let ?d = "[0x4D, 0x43, 0x4B, 0x20, 0x0B, 0x20, 0, 0, 0, 0] :: u8 list"
  let ?m = "[1, 2, 3, 4, 5, 6] :: u8 list"
  let ?s = "default_clock\<lparr>synced := True\<rparr>"
  have a1: "uint (meshMicros default_clock 100000) < uint (extract_timestamp ?d)"
    by (simp add: extract_2100000 meshMicros_def default_clock_def new_clock_def)
  have l1: "\<not> synced default_clock \<or> uint (largeStep default_clock)
              < \<bar>uint (extract_timestamp ?d) - uint (meshMicros default_clock 100000)\<bar>"
    by (simp add: default_clock_def new_clock_def)
  have a2: "uint (meshMicros ?s 100000) < uint (extract_timestamp ?d)"
    by (simp add: extract_2100000 meshMicros_def default_clock_def new_clock_def)
  have l2: "\<not> synced ?s \<or> uint (largeStep ?s)
              < \<bar>uint (extract_timestamp ?d) - uint (meshMicros ?s 100000)\<bar>"
    by (simp add: extract_2100000 meshMicros_def default_clock_def new_clock_def)
  show ?thesis
    using large_step_jump [where nowMs = 3 and mac = ?m, OF handleReceive_2100000 a1 l1]
      large_step_jump [where nowMs = 3 and mac = ?m, OF handleReceive_2100000 a2 l2]
    by (simp add: extract_2100000 meshMicros_def default_clock_def new_clock_def)
qed

text \<open>
  The later revision is forward-only: a valid frame whose timestamp is below the local
  mesh time leaves \<open>offset\<close> as it is, in every branch, as long as mesh time is below
  \<open>2 ^ 63\<close> (beyond it the 64-bit difference changes sign).
\<close>

lemma forward_only_txd:
  assumes valid: "fst (handleReceive_txd s clk nowMs mac data len)"
    and behind: "uint (extract_timestamp data) < uint (meshMicros s clk)"
    and range: "uint (meshMicros s clk) < 2 ^ 63"
  shows "offset (snd (handleReceive_txd s clk nowMs mac data len)) = offset s"
proof -
  let ?r = "extract_timestamp data" and ?l = "clk + offset s"
  have l: "meshMicros s clk = ?l" by (simp add: meshMicros_def)
  have "- (2 ^ 63) \<le> uint ?r - uint ?l"
    using range uint_nonnegative [of ?r] unfolding l by linarith
  moreover have "uint ?r - uint ?l < 2 ^ 63"
    using behind by (simp add: l)
  ultimately have "sint (?r - ?l) = uint ?r - uint ?l"
    by (intro sint_diff)
  then have neg: "\<not> 0 < sint (?r - ?l)" using behind by (simp add: l)
  have "offset (adjust_txd s clk nowMs ?r) = offset s"
    using neg by (simp add: adjust_txd_def Let_def)
  moreover have "handleReceive_txd s clk nowMs mac data len
                   = (True, adjust_txd s clk nowMs ?r)"
    using valid by (auto simp: handleReceive_txd_def split: if_splits)
  ultimately show ?thesis by simp
qed

lemma extract_999500:
  "extract_timestamp [0x4D, 0x43, 0x4B, 0x4C, 0x40, 0x0F, 0, 0, 0, 0] = 999500"
  by (simp add: extract_timestamp_def upt7)

lemma extract_1000000:
  "extract_timestamp [0x4D, 0x43, 0x4B, 0x40, 0x42, 0x0F, 0, 0, 0, 0] = 1000000"
  by (simp add: extract_timestamp_def upt7)

lemma extract_1000500:
  "extract_timestamp [0x4D, 0x43, 0x4B, 0x34, 0x44, 0x0F, 0, 0, 0, 0] = 1000500"
  by (simp add: extract_timestamp_def upt7)

text \<open>
  Two runs from the freshly constructed object. In the first, the counter reads 1000000
  when a valid frame carrying 999500 arrives. In the second, a frame carrying 1000000
  arrives at counter reading 980000 (a jump forward by 20000), and then a frame carrying
  1000500 at counter reading 1000000, when the local mesh time is 1020000. The later
  revision keeps \<open>offset\<close> on each reception from behind.
\<close>

lemma forward_only_txd_example:
  "handleReceive_txd default_clock 1000000 7 [1, 2, 3, 4, 5, 6]
      [0x4D, 0x43, 0x4B, 0x4C, 0x40, 0x0F, 0, 0, 0, 0] 10
    = (True, default_clock\<lparr>synced := True, lastSync := 7\<rparr>) \<and>
   handleReceive_txd default_clock 980000 5 [1, 2, 3, 4, 5, 6]
      [0x4D, 0x43, 0x4B, 0x40, 0x42, 0x0F, 0, 0, 0, 0] 10
    = (True, default_clock\<lparr>offset := 20000, synced := True, lastSync := 5\<rparr>) \<and>
   handleReceive_txd (default_clock\<lparr>offset := 20000, synced := True, lastSync := 5\<rparr>)
      1000000 7 [1, 2, 3, 4, 5, 6] [0x4D, 0x43, 0x4B, 0x34, 0x44, 0x0F, 0, 0, 0, 0] 10
    = (True, default_clock\<lparr>offset := 20000, synced := True, lastSync := 7\<rparr>)"
  by (simp add: handleReceive_txd_def sizeof_MeshClockPacket_def
      MESHCLOCK_MAGIC_0_def MESHCLOCK_MAGIC_1_def MESHCLOCK_MAGIC_2_def
      extract_999500 extract_1000000 extract_1000500
      adjust_txd_def Let_def default_clock_def new_clock_def abs_i64_def)

text \<open>
  C1. \<open>_adjust\<close> of \<^verbatim>\<open>src/ESPNowMeshClock.cpp\<close> is not forward-only in its direct-set
  branch. In the first run the node is not yet synced and the remote is 500 behind:
  \<open>offset\<close> goes from 0 to -500 (as a 64-bit value) and mesh time, at the same counter
  reading, from 1000000 back to 999500. In the second run the node is synced and the remote
  is 19500 behind, more than the threshold 10000: \<open>offset\<close> drops from 20000 to 500 and mesh
  time from 1020000 back to 1000500.
\<close>

theorem adjust_steps_backward:
  "handleReceive default_clock 1000000 7 [1, 2, 3, 4, 5, 6]
      [0x4D, 0x43, 0x4B, 0x4C, 0x40, 0x0F, 0, 0, 0, 0] 10
    = (True, default_clock\<lparr>offset := - 500, synced := True, lastSync := 7\<rparr>) \<and>
   meshMicros default_clock 1000000 = 1000000 \<and>
   meshMicros (default_clock\<lparr>offset := - 500, synced := True, lastSync := 7\<rparr>) 1000000
    = 999500 \<and>
   handleReceive default_clock 980000 5 [1, 2, 3, 4, 5, 6]
      [0x4D, 0x43, 0x4B, 0x40, 0x42, 0x0F, 0, 0, 0, 0] 10
    = (True, default_clock\<lparr>offset := 20000, synced := True, lastSync := 5\<rparr>) \<and>
   handleReceive (default_clock\<lparr>offset := 20000, synced := True, lastSync := 5\<rparr>)
      1000000 7 [1, 2, 3, 4, 5, 6] [0x4D, 0x43, 0x4B, 0x34, 0x44, 0x0F, 0, 0, 0, 0] 10
    = (True, default_clock\<lparr>offset := 500, synced := True, lastSync := 7\<rparr>)"
  by (simp add: handleReceive_def sizeof_MeshClockPacket_def
      MESHCLOCK_MAGIC_0_def MESHCLOCK_MAGIC_1_def MESHCLOCK_MAGIC_2_def
      extract_999500 extract_1000000 extract_1000500 meshMicros_def
      adjust_def Let_def default_clock_def new_clock_def abs_i64_def)

section \<open>Broadcast\<close>

text \<open>
  C6, as the code has it. In the revision with \<^verbatim>\<open>TRANSMISSION_DELAY_US\<close> the frame is the
  packing of \<open>stamp = meshMicros + TRANSMISSION_DELAY_US\<close> (64-bit, wrapping), so its
  timestamp field reads back as the low 56 bits of that sum; the macro's default is 1000,
  and with the macro 0 the stamp is \<open>meshMicros\<close>. \<open>_broadcast\<close> of
  \<^verbatim>\<open>src/ESPNowMeshClock.cpp\<close> has no delay term: its frame is the packing of \<open>meshMicros\<close>.
\<close>

theorem broadcast_stamp:
  "broadcast_txd txd s clk = pack_packet (meshMicros s clk + txd) \<and>
   extract_timestamp (broadcast_txd txd s clk) = take_bit 56 (meshMicros s clk + txd) \<and>
   extract_timestamp (broadcast_txd TRANSMISSION_DELAY_US_default s clk)
     = take_bit 56 (meshMicros s clk + 1000) \<and>
   broadcast_txd 0 s clk = pack_packet (meshMicros s clk) \<and>
   broadcast s clk = pack_packet (meshMicros s clk) \<and>
   extract_timestamp (broadcast s clk) = take_bit 56 (meshMicros s clk)"
  by (simp add: broadcast_txd_def broadcast_def extract_pack TRANSMISSION_DELAY_US_default_def)

text \<open>
  A node that has not synced receives, at counter reading 100000, a valid frame carrying
  the largest timestamp; its mesh time becomes \<open>2 ^ 56 - 1\<close>.
\<close>

lemma extract_max:
  "extract_timestamp [0x4D, 0x43, 0x4B, 0xFF, 0xFF, 0xFF, 0xFF, 0xFF, 0xFF, 0xFF]
     = 0xFFFFFFFFFFFFFF"
  by (simp add: extract_timestamp_def upt7)

lemma after_max_frame:
  "handleReceive_txd default_clock 100000 3 [1, 2, 3, 4, 5, 6]
      [0x4D, 0x43, 0x4B, 0xFF, 0xFF, 0xFF, 0xFF, 0xFF, 0xFF, 0xFF] 10
     = (True, default_clock\<lparr>offset := 0xFFFFFFFFFFFFFF - 100000, synced := True,
                             lastSync := 3\<rparr>)"
  by (simp add: handleReceive_txd_def sizeof_MeshClockPacket_def
      MESHCLOCK_MAGIC_0_def MESHCLOCK_MAGIC_1_def MESHCLOCK_MAGIC_2_def extract_max
      adjust_txd_def Let_def default_clock_def new_clock_def abs_i64_def)

text \<open>
  C6 as stated fails twice. \<open>_broadcast\<close> of \<^verbatim>\<open>src/ESPNowMeshClock.cpp\<close> at mesh time 5000
  sends 5000, not 5000 + 1000. The later revision, broadcasting from the node above at the
  same counter reading, sends 999, the low 56 bits of \<open>2 ^ 56 - 1 + 1000\<close>, not the sum.
\<close>

theorem broadcast_stamp_counterexample:
  "extract_timestamp (broadcast default_clock 5000)
     \<noteq> meshMicros default_clock 5000 + TRANSMISSION_DELAY_US_default \<and>
   extract_timestamp (broadcast_txd TRANSMISSION_DELAY_US_default
       (snd (handleReceive_txd default_clock 100000 3 [1, 2, 3, 4, 5, 6]
          [0x4D, 0x43, 0x4B, 0xFF, 0xFF, 0xFF, 0xFF, 0xFF, 0xFF, 0xFF] 10)) 100000)
     \<noteq> meshMicros (snd (handleReceive_txd default_clock 100000 3 [1, 2, 3, 4, 5, 6]
          [0x4D, 0x43, 0x4B, 0xFF, 0xFF, 0xFF, 0xFF, 0xFF, 0xFF, 0xFF] 10)) 100000
       + TRANSMISSION_DELAY_US_default"
  by (simp add: after_max_frame broadcast_txd_def broadcast_def extract_pack
      TRANSMISSION_DELAY_US_default_def meshMicros_def take_bit_eq_mask mask_eq_exp_minus_1)
     (simp add: default_clock_def new_clock_def)

section \<open>Scheduler\<close>







section \<open>Single-precision rounding\<close>

lemma drop_bits_small: "M < 2 ^ 24 \<Longrightarrow> drop_bits M = 0"
  by (simp add: drop_bits.simps)


lemma round_even_0: "round_even M 0 = M"
  by (simp add: round_even_def)



lemma f32_value_nonneg_expo:
  "0 \<le> expo a \<Longrightarrow> \<not> negative a \<Longrightarrow> f32_value a = of_int (int (mant a) * 2 ^ nat (expo a))"
  by (simp add: f32_value_def power_int_def)

lemma f32_value_neg_expo:
  assumes "expo a < 0" and "\<not> negative a"
  shows "f32_value a = of_int (int (mant a)) / of_int (2 ^ nat (- expo a))"
proof -
  from assms(1) have e: "expo a = - int (nat (- expo a))" by simp
  have "(2::real) powi expo a = inverse (2 ^ nat (- expo a))"
    by (subst e) (simp only: power_int_minus power_int_of_nat)
  with assms(2) show ?thesis
    by (simp add: f32_value_def divide_inverse)
qed

lemma f32_value_zero: "mant a = 0 \<Longrightarrow> f32_value a = 0"
  by (simp add: f32_value_def)

lemma f32_nonneg_cases:
  assumes "0 \<le> f32_value a"
  shows "mant a = 0 \<or> \<not> negative a"
proof (rule ccontr)
  assume "\<not> (mant a = 0 \<or> \<not> negative a)"
  then have m: "0 < mant a" and n: "negative a" by simp_all
  have "0 < real (mant a) * 2 powi expo a"
    using m by (simp add: zero_less_power_int)
  with n have "f32_value a < 0" by (simp add: f32_value_def)
  with assms show False by simp
qed

text \<open>The truncation of a non-negative binary32 number is the floor of its value.\<close>

lemma floor_scaled:
  assumes "\<not> negative a"
  shows "\<lfloor>of_int D * f32_value a\<rfloor>
           = (if 0 \<le> expo a then D * int (mant a) * 2 ^ nat (expo a)
              else (D * int (mant a)) div 2 ^ nat (- expo a))"
proof (cases "0 \<le> expo a")
  case True
  have "of_int D * f32_value a = (of_int (D * int (mant a) * 2 ^ nat (expo a)) :: real)"
    using f32_value_nonneg_expo [OF True assms] by simp
  then have "\<lfloor>of_int D * f32_value a\<rfloor> = D * int (mant a) * 2 ^ nat (expo a)"
    by (simp only: floor_of_int)
  with True show ?thesis by simp
next
  case False
  then have neg: "expo a < 0" by simp
  have "of_int D * f32_value a
          = (of_int (D * int (mant a)) :: real) / of_int (2 ^ nat (- expo a))"
    using f32_value_neg_expo [OF neg assms] by simp
  then have "\<lfloor>of_int D * f32_value a\<rfloor> = (D * int (mant a)) div 2 ^ nat (- expo a)"
    by (simp only: floor_divide_of_int_eq)
  with False show ?thesis by simp
qed

lemma i64_to_f32_exact:
  assumes "0 < sint d" and "sint d < 2 ^ 24"
  shows "i64_to_f32 d = F32 False (nat (sint d)) 0"
proof -
  from assms have "nat \<bar>sint d\<bar> < 2 ^ 24" by simp
  then have "drop_bits (nat \<bar>sint d\<bar>) = 0" by (rule drop_bits_small)
  with assms show ?thesis
    by (simp add: i64_to_f32_def f32_round_def round_even_0)
qed

lemma slew_step_exact:
  assumes pos: "0 < sint d" and small: "sint d < 2 ^ 24"
    and nonneg: "0 \<le> f32_value a"
    and exact: "sint d * int (mant a) < 2 ^ 24"
  shows "slew_step a d = word_of_int \<lfloor>of_int (sint d) * f32_value a\<rfloor>"
proof (cases "mant a = 0")
  case True
  then have "drop_bits (nat (sint d) * mant a) = 0" by (simp add: drop_bits_small)
  with True show ?thesis
    by (simp add: slew_step_def f32_mul_def f32_round_def f32_to_u64_def round_even_0
        i64_to_f32_exact [OF pos small] f32_value_zero)
next
  case False
  with f32_nonneg_cases [OF nonneg] have n: "\<not> negative a" by simp
  let ?M = "nat (sint d) * mant a"
  have M: "int ?M = sint d * int (mant a)" using pos by simp
  with exact have "int ?M < int (2 ^ 24)" by simp
  then have "?M < 2 ^ 24" by (simp only: of_nat_less_iff)
  then have "drop_bits ?M = 0" by (rule drop_bits_small)
  then have "f32_mul (i64_to_f32 d) a = F32 False ?M (expo a)"
    using n by (simp add: f32_mul_def f32_round_def round_even_0 i64_to_f32_exact [OF pos small])
  then have "slew_step a d
      = word_of_int (if 0 \<le> expo a then int ?M * 2 ^ nat (expo a)
                     else int ?M div 2 ^ nat (- expo a))"
    by (simp add: slew_step_def f32_to_u64_def)
  also have "\<dots> = word_of_int \<lfloor>of_int (sint d) * f32_value a\<rfloor>"
    unfolding floor_scaled [OF n] M by simp
  finally show ?thesis .
qed




section \<open>Slewing\<close>

text \<open>
  On a synced node, a valid frame whose timestamp is ahead of the local mesh time by at
  most \<open>largeStep\<close> takes the slewing branch in both revisions: \<open>delta\<close> is the positive
  integer difference and \<open>offset\<close> grows by \<open>slew_step (alpha s) delta\<close>.
\<close>

lemma slew_branch:
  assumes valid: "fst (handleReceive s clk nowMs mac data len)"
    and synced: "synced s"
    and ahead: "uint (meshMicros s clk) < uint (extract_timestamp data)"
    and small: "uint (extract_timestamp data) - uint (meshMicros s clk) \<le> uint (largeStep s)"
  shows "sint (extract_timestamp data - meshMicros s clk)
           = uint (extract_timestamp data) - uint (meshMicros s clk)"
    and "handleReceive s clk nowMs mac data len
           = (True, s\<lparr>lastSync := nowMs, offset := offset s +
                slew_step (alpha s) (extract_timestamp data - meshMicros s clk)\<rparr>)"
    and "handleReceive_txd s clk nowMs mac data len
           = (True, s\<lparr>lastSync := nowMs, offset := offset s +
                slew_step (alpha s) (extract_timestamp data - meshMicros s clk)\<rparr>)"
proof -
  let ?r = "extract_timestamp data" and ?l = "clk + offset s"
  have l: "meshMicros s clk = ?l" by (simp add: meshMicros_def)
  have "(2::int) ^ 56 \<le> 2 ^ 63" by simp
  with extract_bound [of data] uint_nonnegative [of ?l]
  have "uint ?r - uint ?l < 2 ^ 63" by linarith
  moreover have "- (2 ^ 63) \<le> uint ?r - uint ?l"
    using ahead by (simp add: l)
  ultimately have d: "sint (?r - ?l) = uint ?r - uint ?l"
    by (intro sint_diff)
  then show "sint (?r - meshMicros s clk) = uint ?r - uint (meshMicros s clk)"
    by (simp add: l)
  from d have pos: "0 < sint (?r - ?l)" using ahead by (simp add: l)
  have a: "\<not> uint (largeStep s) < sint (abs_i64 (?r - ?l))"
    using pos d small by (simp add: abs_i64_pos l)
  have A: "adjust s clk nowMs ?r
             = s\<lparr>lastSync := nowMs, offset := offset s + slew_step (alpha s) (?r - ?l)\<rparr>"
    using synced a pos by (simp add: adjust_def Let_def)
  have B: "adjust_txd s clk nowMs ?r
             = s\<lparr>lastSync := nowMs, offset := offset s + slew_step (alpha s) (?r - ?l)\<rparr>"
    using synced a pos by (simp add: adjust_txd_def Let_def)
  show "handleReceive s clk nowMs mac data len
           = (True, s\<lparr>lastSync := nowMs, offset := offset s +
                slew_step (alpha s) (?r - meshMicros s clk)\<rparr>)"
    and "handleReceive_txd s clk nowMs mac data len
           = (True, s\<lparr>lastSync := nowMs, offset := offset s +
                slew_step (alpha s) (?r - meshMicros s clk)\<rparr>)"
    by (simp_all add: handleReceive_valid [OF valid] A B l)
qed

text \<open>Frames and steps of the examples below.\<close>

lemma extract_1000400:
  "extract_timestamp [0x4D, 0x43, 0x4B, 0xD0, 0x43, 0x0F, 0, 0, 0, 0] = 1000400"
  by (simp add: extract_timestamp_def upt7)

lemma extract_1000010:
  "extract_timestamp [0x4D, 0x43, 0x4B, 0x4A, 0x42, 0x0F, 0, 0, 0, 0] = 1000010"
  by (simp add: extract_timestamp_def upt7)

lemma extract_17777219:
  "extract_timestamp [0x4D, 0x43, 0x4B, 0x43, 0x42, 0x0F, 0x01, 0, 0, 0] = 17777219"
  by (simp add: extract_timestamp_def upt7)

lemma handleReceive_magic:
  "fst (handleReceive s clk nowMs mac (0x4D # 0x43 # 0x4B # rest) 10)"
  by (simp add: handleReceive_def sizeof_MeshClockPacket_def MESHCLOCK_MAGIC_0_def
      MESHCLOCK_MAGIC_1_def MESHCLOCK_MAGIC_2_def)

lemma slew_step_quarter_400: "slew_step (F32 False 1 (- 2)) 400 = 100"
  by (simp add: slew_step_def f32_mul_def f32_to_u64_def i64_to_f32_def f32_round_def
      drop_bits.simps round_even_def Let_def)

lemma slew_step_quarter_big: "slew_step (F32 False 1 (- 2)) 16777219 = 4194305"
  by (simp add: slew_step_def f32_mul_def f32_to_u64_def i64_to_f32_def f32_round_def
      drop_bits.simps round_even_def Let_def)


lemma slew_step_07_10: "slew_step (F32 False 11744051 (- 24)) 10 = 7"
  by (simp add: slew_step_def f32_mul_def f32_to_u64_def i64_to_f32_def f32_round_def
      drop_bits.simps round_even_def Let_def)

text \<open>
  C7, as the code has it. On a synced node a valid frame ahead by \<open>delta\<close>, at most
  \<open>largeStep\<close>, makes \<open>offset\<close> grow by \<^verbatim>\<open>(uint64_t)(delta * _alpha)\<close> computed in single
  precision: \<open>delta\<close> rounded to binary32, the product rounded to binary32, then truncated.
  When \<open>_alpha\<close> is non-negative and written \<open>m * 2 ^ e\<close> with \<open>delta < 2 ^ 24\<close> and
  \<open>delta * m < 2 ^ 24\<close>, nothing is rounded and the growth is the floor of
  \<open>delta * _alpha\<close>. For 0.25, which is \<open>1 * 2 ^ - 2\<close>, that is every \<open>delta\<close> below \<open>2 ^ 24\<close>.
\<close>

theorem slew_fraction:
  assumes valid: "fst (handleReceive s clk nowMs mac data len)"
    and synced: "synced s"
    and ahead: "uint (meshMicros s clk) < uint (extract_timestamp data)"
    and small: "uint (extract_timestamp data) - uint (meshMicros s clk) \<le> uint (largeStep s)"
  shows "offset (snd (handleReceive s clk nowMs mac data len))
           = offset s + slew_step (alpha s) (extract_timestamp data - meshMicros s clk) \<and>
         offset (snd (handleReceive_txd s clk nowMs mac data len))
           = offset s + slew_step (alpha s) (extract_timestamp data - meshMicros s clk) \<and>
         (0 \<le> f32_value (alpha s) \<and>
          uint (extract_timestamp data) - uint (meshMicros s clk) < 2 ^ 24 \<and>
          (uint (extract_timestamp data) - uint (meshMicros s clk)) * int (mant (alpha s)) < 2 ^ 24
          \<longrightarrow>
            offset (snd (handleReceive s clk nowMs mac data len))
              = offset s + word_of_int
                  \<lfloor>of_int (uint (extract_timestamp data) - uint (meshMicros s clk))
                     * f32_value (alpha s)\<rfloor> \<and>
            offset (snd (handleReceive_txd s clk nowMs mac data len))
              = offset s + word_of_int
                  \<lfloor>of_int (uint (extract_timestamp data) - uint (meshMicros s clk))
                     * f32_value (alpha s)\<rfloor>)"
proof -
  let ?d = "extract_timestamp data - meshMicros s clk"
  note b = slew_branch [OF valid synced ahead small]
  have pos: "0 < sint ?d" using ahead by (simp add: b(1))
  have "slew_step (alpha s) ?d = word_of_int \<lfloor>of_int (sint ?d) * f32_value (alpha s)\<rfloor>"
    if "0 \<le> f32_value (alpha s)" and "sint ?d < 2 ^ 24"
      and "sint ?d * int (mant (alpha s)) < 2 ^ 24"
    using pos that(2,1,3) by (rule slew_step_exact)
  then show ?thesis by (simp add: b)
qed


text \<open>
  Steady state with a small positive delta: synced, \<open>offset = 0\<close>, the counter reads
  1000000 and the frame carries 1000400. With the default 0.25 the new offset is 100.
\<close>

theorem slew_fraction_witness:
  "offset (snd (handleReceive (default_clock\<lparr>synced := True\<rparr>) 1000000 7 [1, 2, 3, 4, 5, 6]
      [0x4D, 0x43, 0x4B, 0xD0, 0x43, 0x0F, 0, 0, 0, 0] 10)) = 100 \<and>
   \<lfloor>(400 :: real) * f32_value (alpha default_clock)\<rfloor> = 100"
proof -
  let ?d = "[0x4D, 0x43, 0x4B, 0xD0, 0x43, 0x0F, 0, 0, 0, 0] :: u8 list"
  let ?s = "default_clock\<lparr>synced := True\<rparr>"
  have sy: "synced ?s" by simp
  have ah: "uint (meshMicros ?s 1000000) < uint (extract_timestamp ?d)"
    by (simp add: extract_1000400 meshMicros_def default_clock_def new_clock_def)
  have sm: "uint (extract_timestamp ?d) - uint (meshMicros ?s 1000000) \<le> uint (largeStep ?s)"
    by (simp add: extract_1000400 meshMicros_def default_clock_def new_clock_def)
  show ?thesis
    using slew_fraction [where nowMs = 7 and mac = "[1, 2, 3, 4, 5, 6]",
        OF handleReceive_magic sy ah sm]
    by (simp add: extract_1000400 meshMicros_def default_clock_def new_clock_def
        f32_value_def power_int_minus slew_step_quarter_400 del: One_nat_def)
qed

text \<open>
  In particular, with the default 0.25 and any threshold below \<open>2 ^ 24\<close>, every slewing
  reception adds the floor of \<open>delta / 4\<close>.
\<close>

lemma slew_quarter:
  assumes valid: "fst (handleReceive s clk nowMs mac data len)"
    and synced: "synced s"
    and ahead: "uint (meshMicros s clk) < uint (extract_timestamp data)"
    and small: "uint (extract_timestamp data) - uint (meshMicros s clk) \<le> uint (largeStep s)"
    and quarter: "alpha s = F32 False 1 (- 2)"
    and threshold: "uint (largeStep s) < 2 ^ 24"
  shows "offset (snd (handleReceive s clk nowMs mac data len))
           = offset s + word_of_int
               \<lfloor>of_int (uint (extract_timestamp data) - uint (meshMicros s clk)) * (1 / 4 :: real)\<rfloor>"
proof -
  let ?d = "extract_timestamp data - meshMicros s clk"
  note b = slew_branch [OF valid synced ahead small]
  have pos: "0 < sint ?d" using ahead by (simp add: b(1))
  from small threshold
  have "uint (extract_timestamp data) - uint (meshMicros s clk) < 2 ^ 24" by linarith
  then have sm: "sint ?d < 2 ^ 24" by (simp only: b(1))
  have v: "f32_value (alpha s) = 1 / 4"
    by (simp add: quarter f32_value_def power_int_minus)
  have "slew_step (alpha s) ?d = word_of_int \<lfloor>of_int (sint ?d) * f32_value (alpha s)\<rfloor>"
  proof (rule slew_step_exact [OF pos sm])
    show "0 \<le> f32_value (alpha s)" by (simp add: v)
    show "sint ?d * int (mant (alpha s)) < 2 ^ 24" using sm by (simp add: quarter)
  qed
  then show ?thesis by (simp add: b v)
qed

text \<open>
  C7 as stated fails in two ways. With 0.25 and the threshold \<open>2 ^ 32 - 1\<close>, a delta of
  16777219 is rounded to 16777220 when converted, and the step is 4194305 where the floor
  of \<open>delta * 0.25\<close> is 4194304. With the default threshold and the binary32 number nearest
  0.7, which is \<open>11744051 * 2 ^ - 24\<close>, a delta of 10 gives a product that rounds to 7.0,
  and the step is 7 where the floor of \<open>delta * _alpha\<close> is 6.
\<close>

theorem slew_fraction_counterexample:
  "is_binary32 (F32 False 1 (- 2)) \<and>
   offset (snd (handleReceive
      ((new_clock 1000 (F32 False 1 (- 2)) 0xFFFFFFFF 5000 10)\<lparr>synced := True\<rparr>)
      1000000 7 [1, 2, 3, 4, 5, 6] [0x4D, 0x43, 0x4B, 0x43, 0x42, 0x0F, 0x01, 0, 0, 0] 10))
     = 4194305 \<and>
   \<lfloor>(16777219 :: real) * f32_value (F32 False 1 (- 2))\<rfloor> = 4194304 \<and>
   is_binary32 (F32 False 11744051 (- 24)) \<and>
   offset (snd (handleReceive
      ((new_clock 1000 (F32 False 11744051 (- 24)) 10000 5000 10)\<lparr>synced := True\<rparr>)
      1000000 7 [1, 2, 3, 4, 5, 6] [0x4D, 0x43, 0x4B, 0x4A, 0x42, 0x0F, 0, 0, 0, 0] 10))
     = 7 \<and>
   \<lfloor>(10 :: real) * f32_value (F32 False 11744051 (- 24))\<rfloor> = 6"
  by (simp add: is_binary32_def handleReceive_def sizeof_MeshClockPacket_def
      MESHCLOCK_MAGIC_0_def MESHCLOCK_MAGIC_1_def MESHCLOCK_MAGIC_2_def
      extract_17777219 extract_1000010 adjust_def Let_def new_clock_def abs_i64_def
      slew_step_quarter_big slew_step_07_10 f32_value_def power_int_minus
      del: One_nat_def)




end
